theory Spec2Isabelle
  imports Main "HOL-Library.Multiset"
begin

section \<open>The store as seen from aggregator/app.py\<close>

text \<open>
  Every database function of the aggregator opens its own connection with
  \<^verbatim>\<open>get_db_connection\<close>, runs a few statements and commits. The store is an
  external collaborator, so what it answers to each call is an argument of the model:
  an environment says, for the call in progress, how each connection attempt ends, which
  statement (if any) fails for a reason the program does not control, what the driver
  makes of a parameter that is neither null nor a string, and what \<^verbatim>\<open>NOW()\<close> returns.
  What the store does by the schema of \<^verbatim>\<open>init_database\<close> (NOT NULL, VARCHAR(255)
  and UNIQUE on \<^verbatim>\<open>event_id\<close>, the range of INTEGER, the sign of LIMIT and OFFSET) is
  computed from the data.
\<close>

datatype exn =
    IntegrityError
  | OperationalError
  | DataError
  | ValueError
  | OtherError
  | AttributeError
  | KeyError
  | ConnectFailed

datatype fault = Operational | Other

fun exn_of :: "fault \<Rightarrow> exn" where
  "exn_of Operational = OperationalError"
| "exn_of Other = OtherError"

datatype attempt = Connects | RaisesOperational | RaisesOther

datatype call_site =
    InitSchema
  | InsertRow
  | CountUnique
  | CommitInsert
  | RollbackTx
  | CountDuplicate
  | CommitDuplicate
  | CountReceived
  | CommitReceived
  | SelectEvents

record env =
  connect :: "nat \<Rightarrow> attempt"
  fault_at :: "call_site \<Rightarrow> fault option"
  adapt :: "string \<Rightarrow> exn + string"
  now :: int

datatype conn = Conn

definition max_retries :: nat where
  "max_retries = 5"

text \<open>
  \<^verbatim>\<open>for attempt in range(max_retries)\<close>: a successful connect returns, an
  OperationalError retries unless this was the last attempt, where the loop raises
  \<^verbatim>\<open>Exception("Failed to connect ...")\<close>; any other exception of connect is not
  caught. Falling off the end of the loop would return None.
\<close>

fun connect_loop :: "(nat \<Rightarrow> attempt) \<Rightarrow> nat list \<Rightarrow> exn + conn option" where
  "connect_loop c [] = Inr None"
| "connect_loop c (attempt # rest) =
     (case c attempt of
        Connects \<Rightarrow> Inr (Some Conn)
      | RaisesOperational \<Rightarrow>
          if attempt < max_retries - 1 then connect_loop c rest else Inl ConnectFailed
      | RaisesOther \<Rightarrow> Inl OtherError)"

definition get_db_connection :: "(nat \<Rightarrow> attempt) \<Rightarrow> exn + conn option" where
  "get_db_connection c = connect_loop c [0..<max_retries]"

text \<open>
  \<^verbatim>\<open>conn = get_db_connection(); cur = conn.cursor()\<close>, as every database function
  starts: outside any try block, so an exception of the first call leaves the function,
  and None would have no cursor.
\<close>

definition open_cursor :: "env \<Rightarrow> exn + conn" where
  "open_cursor e =
     (case get_db_connection (connect e) of
        Inl x \<Rightarrow> Inl x
      | Inr None \<Rightarrow> Inl AttributeError
      | Inr (Some c) \<Rightarrow> Inr c)"

subsection \<open>Values and tables\<close>

text \<open>
  A value of a request body: JSON null, a JSON string, or anything else (a number, a
  boolean, an array, an object), kept as its JSON text. A character of a string is one
  \<open>char\<close> of the model.
\<close>

datatype json = JNull | JString string | JOther string

text \<open>
  An event as \<^verbatim>\<open>publish\<close> puts it on the queue: the values of the request under
  topic, event_id, source and payload as they came, and the parsed timestamp (a point
  in time, here an integer). A row of \<^verbatim>\<open>processed_events\<close> has the three
  VARCHAR(255) columns, the timestamp, the payload (JSONB) and \<^verbatim>\<open>received_at\<close>,
  which defaults to \<^verbatim>\<open>NOW()\<close>; the surrogate \<^verbatim>\<open>id\<close> and \<^verbatim>\<open>created_at\<close> are
  never read and are left out.
\<close>

record event =
  topic :: json
  event_id :: json
  source :: json
  timestamp :: int
  payload :: json

record stored_record =
  row_event_id :: string
  row_topic :: string
  row_timestamp :: int
  row_source :: string
  row_payload :: json
  received_at :: int

record counters =
  received :: int
  unique_processed :: int
  duplicate_dropped :: int

record db =
  processed_events :: "stored_record list"
  stats :: counters

definition fresh_db :: db where
  "fresh_db = \<lparr>processed_events = [],
               stats = \<lparr>received = 0, unique_processed = 0, duplicate_dropped = 0\<rparr>\<rparr>"

text \<open>
  \<^verbatim>\<open>init_database\<close>: CREATE TABLE IF NOT EXISTS and INSERT ... ON CONFLICT DO NOTHING
  leave an existing database as it is and give a new one the empty table and the stats
  row (1, 0, 0, 0). Nothing catches a failure here: the process does not start.
\<close>

definition init_database :: "env \<Rightarrow> db option \<Rightarrow> exn + db" where
  "init_database e existing =
     (case open_cursor e of
        Inl x \<Rightarrow> Inl x
      | Inr c \<Rightarrow>
          (case fault_at e InitSchema of
             Some f \<Rightarrow> Inl (exn_of f)
           | None \<Rightarrow> Inr (case existing of None \<Rightarrow> fresh_db | Some d \<Rightarrow> d)))"

subsection \<open>Statements\<close>

definition pg_integer_max :: int where
  "pg_integer_max = 2147483647"

definition pg_bigint_max :: int where
  "pg_bigint_max = 9223372036854775807"

definition stored_ids :: "db \<Rightarrow> string list" where
  "stored_ids d = map row_event_id (processed_events d)"

text \<open>
  A parameter of \<^verbatim>\<open>cur.execute\<close> as the driver sends it: None is NULL, a string is
  its text unless it holds a NUL character, which the driver refuses with ValueError;
  what becomes of any other value (the text sent, or the exception raised) is the
  environment's answer.
\<close>

definition bound :: "env \<Rightarrow> json \<Rightarrow> exn + string option" where
  "bound e v =
     (case v of
        JNull \<Rightarrow> Inr None
      | JString s \<Rightarrow> if CHR 0x00 \<in> set s then Inl ValueError else Inr (Some s)
      | JOther t \<Rightarrow> (case adapt e t of Inl x \<Rightarrow> Inl x | Inr s \<Rightarrow> Inr (Some s)))"

text \<open>
  A text assigned to a VARCHAR(255) column: kept when it has at most 255 characters,
  cut to 255 when the characters beyond are all spaces, refused with DataError
  ("value too long") otherwise.
\<close>

definition varchar_255 :: "string \<Rightarrow> exn + string" where
  "varchar_255 s =
     (if length s \<le> 255 then Inr s
      else if list_all (\<lambda>c. c = CHR '' '') (drop 255 s) then Inr (take 255 s)
      else Inl DataError)"

definition column :: "env \<Rightarrow> json \<Rightarrow> exn + string option" where
  "column e v =
     (case bound e v of
        Inl x \<Rightarrow> Inl x
      | Inr None \<Rightarrow> Inr None
      | Inr (Some s) \<Rightarrow> (case varchar_255 s of Inl x \<Rightarrow> Inl x | Inr t \<Rightarrow> Inr (Some t)))"

fun first_error :: "(exn + 'a) list \<Rightarrow> exn option" where
  "first_error [] = None"
| "first_error (Inl x # rest) = Some x"
| "first_error (Inr v # rest) = first_error rest"

text \<open>
  What refuses the row before the UNIQUE constraint is looked at: the driver, for the
  first parameter it cannot send; then the store, for the first text too long for its
  column; then NOT NULL, an IntegrityError, for a NULL in event_id, topic or source.
\<close>

definition refusal :: "env \<Rightarrow> event \<Rightarrow> exn option" where
  "refusal e ev =
     (case first_error (map (bound e) [event_id ev, topic ev, source ev]) of
        Some x \<Rightarrow> Some x
      | None \<Rightarrow>
          (case first_error (map (column e) [event_id ev, topic ev, source ev]) of
             Some x \<Rightarrow> Some x
           | None \<Rightarrow>
               if list_ex (\<lambda>v. column e v = Inr None) [event_id ev, topic ev, source ev]
               then Some IntegrityError
               else None))"

definition column_text :: "env \<Rightarrow> json \<Rightarrow> string" where
  "column_text e v = (case column e v of Inr (Some t) \<Rightarrow> t | _ \<Rightarrow> [])"

text \<open>The row the INSERT adds when nothing refuses it.\<close>

definition new_row :: "env \<Rightarrow> event \<Rightarrow> stored_record" where
  "new_row e ev =
     \<lparr>row_event_id = column_text e (event_id ev), row_topic = column_text e (topic ev),
      row_timestamp = timestamp ev, row_source = column_text e (source ev),
      row_payload = payload ev, received_at = now e\<rparr>"

text \<open>
  \<^verbatim>\<open>INSERT INTO processed_events (...) VALUES (...)\<close> on the working copy of the
  transaction. The statement fails with the environment's fault at this call
  (connectivity, a payload the store does not take), with what refuses the row, or with
  IntegrityError when a row with this event_id exists
  (\<^verbatim>\<open>event_id VARCHAR(255) UNIQUE NOT NULL\<close>).
\<close>

definition exec_insert :: "env \<Rightarrow> event \<Rightarrow> db \<Rightarrow> exn + db" where
  "exec_insert e ev d =
     (case fault_at e InsertRow of
        Some f \<Rightarrow> Inl (exn_of f)
      | None \<Rightarrow>
          (case refusal e ev of
             Some x \<Rightarrow> Inl x
           | None \<Rightarrow>
               if row_event_id (new_row e ev) \<in> set (stored_ids d) then Inl IntegrityError
               else Inr (d\<lparr>processed_events := processed_events d @ [new_row e ev]\<rparr>)))"

datatype column_name = ReceivedCol | UniqueProcessedCol | DuplicateDroppedCol

fun column_value :: "column_name \<Rightarrow> counters \<Rightarrow> int" where
  "column_value ReceivedCol c = received c"
| "column_value UniqueProcessedCol c = unique_processed c"
| "column_value DuplicateDroppedCol c = duplicate_dropped c"

fun column_plus_one :: "column_name \<Rightarrow> counters \<Rightarrow> counters" where
  "column_plus_one ReceivedCol c = c\<lparr>received := received c + 1\<rparr>"
| "column_plus_one UniqueProcessedCol c = c\<lparr>unique_processed := unique_processed c + 1\<rparr>"
| "column_plus_one DuplicateDroppedCol c = c\<lparr>duplicate_dropped := duplicate_dropped c + 1\<rparr>"

text \<open>
  \<^verbatim>\<open>UPDATE stats SET col = col + 1 WHERE id = 1\<close>: one statement, on the working
  copy. The columns are INTEGER, so the store refuses the update at 2147483647
  ("integer out of range") instead of wrapping.
\<close>

definition exec_increment :: "env \<Rightarrow> call_site \<Rightarrow> column_name \<Rightarrow> db \<Rightarrow> exn + db" where
  "exec_increment e site col d =
     (case fault_at e site of
        Some f \<Rightarrow> Inl (exn_of f)
      | None \<Rightarrow>
          if column_value col (stats d) < pg_integer_max
          then Inr (d\<lparr>stats := column_plus_one col (stats d)\<rparr>)
          else Inl DataError)"

text \<open>
  \<^verbatim>\<open>conn.commit()\<close> makes the working copy the durable state; a commit that raises
  leaves the durable state as it was. \<^verbatim>\<open>conn.rollback()\<close> drops the working copy.
\<close>

definition exec_commit :: "env \<Rightarrow> call_site \<Rightarrow> db \<Rightarrow> exn + db" where
  "exec_commit e site working =
     (case fault_at e site of Some f \<Rightarrow> Inl (exn_of f) | None \<Rightarrow> Inr working)"

definition exec_rollback :: "env \<Rightarrow> exn option" where
  "exec_rollback e = map_option exn_of (fault_at e RollbackTx)"

section \<open>insert_event\<close>

text \<open>The body of the try block: INSERT, UPDATE unique_processed, commit.\<close>

definition try_insert :: "env \<Rightarrow> event \<Rightarrow> db \<Rightarrow> exn + db" where
  "try_insert e ev d =
     (case exec_insert e ev d of
        Inl x \<Rightarrow> Inl x
      | Inr d1 \<Rightarrow>
          (case exec_increment e CountUnique UniqueProcessedCol d1 of
             Inl x \<Rightarrow> Inl x
           | Inr d2 \<Rightarrow> exec_commit e CommitInsert d2))"

text \<open>
  The handler of \<^verbatim>\<open>except psycopg2.IntegrityError\<close>: rollback, UPDATE
  duplicate_dropped on the durable state, commit. An exception raised inside a handler
  is not caught by the handler after it.
\<close>

definition on_integrity_error :: "env \<Rightarrow> db \<Rightarrow> exn + ((bool \<times> bool) \<times> db)" where
  "on_integrity_error e d =
     (case exec_rollback e of
        Some x \<Rightarrow> Inl x
      | None \<Rightarrow>
          (case exec_increment e CountDuplicate DuplicateDroppedCol d of
             Inl x \<Rightarrow> Inl x
           | Inr d1 \<Rightarrow>
               (case exec_commit e CommitDuplicate d1 of
                  Inl x \<Rightarrow> Inl x
                | Inr d2 \<Rightarrow> Inr ((True, True), d2))))"

text \<open>The handler of \<^verbatim>\<open>except Exception\<close>: rollback, print, return (False, False).\<close>

definition on_exception :: "env \<Rightarrow> db \<Rightarrow> exn + ((bool \<times> bool) \<times> db)" where
  "on_exception e d =
     (case exec_rollback e of
        Some x \<Rightarrow> Inl x
      | None \<Rightarrow> Inr ((False, False), d))"

text \<open>
  \<^verbatim>\<open>insert_event\<close> returns (success, is_dup) and the durable state, or raises
  (\<open>Inl\<close>), which leaves the durable state as it was.
\<close>

definition insert_event :: "env \<Rightarrow> event \<Rightarrow> db \<Rightarrow> exn + ((bool \<times> bool) \<times> db)" where
  "insert_event e ev d =
     (case open_cursor e of
        Inl x \<Rightarrow> Inl x
      | Inr c \<Rightarrow>
          (case try_insert e ev d of
             Inr d' \<Rightarrow> Inr ((True, False), d')
           | Inl x \<Rightarrow>
               if x = IntegrityError then on_integrity_error e d
               else on_exception e d))"

abbreviation Created :: "bool \<times> bool" where "Created \<equiv> (True, False)"
abbreviation Duplicate :: "bool \<times> bool" where "Duplicate \<equiv> (True, True)"
abbreviation Failed :: "bool \<times> bool" where "Failed \<equiv> (False, False)"

text \<open>The durable state after a call, whether it returned or raised.\<close>

definition db_after :: "exn + ((bool \<times> bool) \<times> db) \<Rightarrow> db \<Rightarrow> db" where
  "db_after r d = (case r of Inl x \<Rightarrow> d | Inr (outcome, d') \<Rightarrow> d')"

section \<open>increment_received\<close>

definition increment_received :: "env \<Rightarrow> db \<Rightarrow> exn + db" where
  "increment_received e d =
     (case open_cursor e of
        Inl x \<Rightarrow> Inl x
      | Inr c \<Rightarrow>
          (case exec_increment e CountReceived ReceivedCol d of
             Inl x \<Rightarrow> Inl x
           | Inr d1 \<Rightarrow> exec_commit e CommitReceived d1))"

section \<open>get_events_from_db\<close>

text \<open>
  \<^verbatim>\<open>ORDER BY received_at DESC\<close>: rows in descending order of arrival; the store
  fixes no order among rows of equal received_at, the model keeps them in table order.
\<close>

definition order_by_received_at_desc :: "stored_record list \<Rightarrow> stored_record list" where
  "order_by_received_at_desc rs = sort_key (\<lambda>r. - received_at r) rs"

text \<open>
  \<^verbatim>\<open>if topic:\<close> selects the query with \<^verbatim>\<open>WHERE topic = %s\<close> for a topic that is
  neither None nor the empty string.
\<close>

definition where_topic :: "string option \<Rightarrow> stored_record list \<Rightarrow> stored_record list" where
  "where_topic tp rs =
     (case tp of
        None \<Rightarrow> rs
      | Some t \<Rightarrow> if t = [] then rs else filter (\<lambda>r. row_topic r = t) rs)"

text \<open>
  LIMIT and OFFSET take a bigint that is not negative; the store refuses any other
  value. The result rows carry the six selected columns (the conversion of the two
  times with \<^verbatim>\<open>isoformat()\<close> is left out).
\<close>

definition get_events_from_db ::
  "env \<Rightarrow> db \<Rightarrow> string option \<Rightarrow> int \<Rightarrow> int \<Rightarrow> exn + stored_record list" where
  "get_events_from_db e d tp limit offset =
     (case open_cursor e of
        Inl x \<Rightarrow> Inl x
      | Inr c \<Rightarrow>
          (case fault_at e SelectEvents of
             Some f \<Rightarrow> Inl (exn_of f)
           | None \<Rightarrow>
               if limit < 0 \<or> offset < 0 \<or> pg_bigint_max < limit \<or> pg_bigint_max < offset
               then Inl DataError
               else Inr (take (nat limit) (drop (nat offset)
                      (order_by_received_at_desc (where_topic tp (processed_events d)))))))"

text \<open>\<^verbatim>\<open>get_events\<close>: limit defaults to 100 and offset to 0.\<close>

definition get_events ::
  "env \<Rightarrow> db \<Rightarrow> string option \<Rightarrow> int option \<Rightarrow> int option \<Rightarrow> exn + stored_record list" where
  "get_events e d tp limit offset =
     get_events_from_db e d tp
       (case limit of None \<Rightarrow> 100 | Some l \<Rightarrow> l)
       (case offset of None \<Rightarrow> 0 | Some k \<Rightarrow> k)"

section \<open>The queue and the worker\<close>

text \<open>
  \<^verbatim>\<open>event_queue.append(x)\<close> and, in the worker,
  \<^verbatim>\<open>if event_queue: event = event_queue.pop(0)\<close>; both run under \<^verbatim>\<open>queue_lock\<close>,
  so each is one step.
\<close>

definition enqueue :: "'a \<Rightarrow> 'a list \<Rightarrow> 'a list" where
  "enqueue x q = q @ [x]"

definition dequeue :: "'a list \<Rightarrow> 'a option \<times> 'a list" where
  "dequeue q = (case q of [] \<Rightarrow> (None, []) | x # rest \<Rightarrow> (Some x, rest))"

record state =
  queue :: "event list"
  store :: db

text \<open>
  The two lines the worker prints, \<^verbatim>\<open>[DUP] topic/event_id\<close> and
  \<^verbatim>\<open>[OK]  topic/event_id\<close>, with the two values of the event.
\<close>

datatype log_line = DUP json json | OK json json

text \<open>
  One pass of the worker's \<^verbatim>\<open>while True\<close>: take the head of the queue if there is
  one, call \<^verbatim>\<open>insert_event\<close>, print [DUP] when is_dup and [OK] otherwise; sleep when
  the queue is empty. The loop has no try block: an exception of \<^verbatim>\<open>insert_event\<close>
  ends the thread (\<open>Inl\<close>), after the event has left the queue.
\<close>

definition worker_iteration :: "env \<Rightarrow> state \<Rightarrow> (exn + log_line option) \<times> state" where
  "worker_iteration e s =
     (case dequeue (queue s) of
        (None, q) \<Rightarrow> (Inr None, s)
      | (Some ev, q) \<Rightarrow>
          (case insert_event e ev (store s) of
             Inl x \<Rightarrow> (Inl x, s\<lparr>queue := q\<rparr>)
           | Inr ((success, is_dup), d) \<Rightarrow>
               (Inr (Some (if is_dup then DUP (topic ev) (event_id ev)
                           else OK (topic ev) (event_id ev))),
                s\<lparr>queue := q, store := d\<rparr>)))"

text \<open>
  The worker thread over its first passes, one environment per pass: the exception that
  ended it (if any), the lines it printed, and the state it left.
\<close>

fun worker :: "env list \<Rightarrow> state \<Rightarrow> exn option \<times> log_line list \<times> state" where
  "worker [] s = (None, [], s)"
| "worker (e # es) s =
     (case worker_iteration e s of
        (Inl x, s') \<Rightarrow> (Some x, [], s')
      | (Inr line, s') \<Rightarrow>
          (case worker es s' of
             (died, printed, s'') \<Rightarrow>
               (died, (case line of None \<Rightarrow> [] | Some l \<Rightarrow> [l]) @ printed, s'')))"

text \<open>
  The hand-off alone, with several workers: a producer appends, worker \<open>w\<close> runs its
  locked section; the second component records which worker received which event.
\<close>

datatype queue_op = Append event | Pop nat

fun queue_step :: "queue_op \<Rightarrow> event list \<times> (nat \<times> event) list \<Rightarrow> event list \<times> (nat \<times> event) list" where
  "queue_step (Append ev) (q, claimed) = (enqueue ev q, claimed)"
| "queue_step (Pop w) (q, claimed) =
     (case dequeue q of
        (None, q') \<Rightarrow> (q, claimed)
      | (Some ev, q') \<Rightarrow> (q', claimed @ [(w, ev)]))"

fun queue_run :: "queue_op list \<Rightarrow> event list \<times> (nat \<times> event) list \<Rightarrow> event list \<times> (nat \<times> event) list" where
  "queue_run [] st = st"
| "queue_run (a # as) st = queue_run as (queue_step a st)"

fun appended :: "queue_op list \<Rightarrow> event list" where
  "appended [] = []"
| "appended (Append ev # as) = ev # appended as"
| "appended (Pop w # as) = appended as"

section \<open>publish and publish_batch\<close>

text \<open>
  The body of a request is a JSON object: a finite map from field names to values.
  \<^verbatim>\<open>datetime.fromisoformat\<close> belongs to the standard library and is an argument of
  the model: it gives the time a text denotes, or nothing when it raises.
\<close>

type_synonym json_object = "string \<rightharpoonup> json"

definition required :: "string list" where
  "required = [''topic'', ''event_id'', ''timestamp'', ''source'', ''payload'']"

text \<open>\<^verbatim>\<open>for field in required: if field not in data: return ... 400\<close>\<close>

definition missing_field :: "json_object \<Rightarrow> string list \<Rightarrow> string option" where
  "missing_field data names = find (\<lambda>f. data f = None) names"

text \<open>\<^verbatim>\<open>.replace('Z', '+00:00')\<close>\<close>

definition replace_Z :: "string \<Rightarrow> string" where
  "replace_Z s = concat (map (\<lambda>c. if c = CHR ''Z'' then ''+00:00'' else [c]) s)"

definition subscript :: "json_object \<Rightarrow> string \<Rightarrow> exn + json" where
  "subscript data k = (case data k of None \<Rightarrow> Inl KeyError | Some v \<Rightarrow> Inr v)"

text \<open>
  \<^verbatim>\<open>datetime.fromisoformat(data['timestamp'].replace('Z', '+00:00'))\<close> inside
  \<^verbatim>\<open>try ... except:\<close>, which catches whatever is raised there: the KeyError of a
  missing key, the AttributeError of a value that is not a string and has no
  \<^verbatim>\<open>replace\<close>, the error of the parser.
\<close>

definition parse_timestamp :: "(string \<Rightarrow> int option) \<Rightarrow> json_object \<Rightarrow> int option" where
  "parse_timestamp fromisoformat data =
     (case subscript data ''timestamp'' of
        Inr (JString text) \<Rightarrow> fromisoformat (replace_Z text)
      | _ \<Rightarrow> None)"

datatype verdict = Missing string | BadTimestamp | Raised exn | Valid event

text \<open>
  The checks that \<^verbatim>\<open>publish\<close> and \<^verbatim>\<open>publish_batch\<close> both make on one event, and
  the dictionary they build for the queue: the required fields in order, then the
  timestamp, then the values under the four other keys as they are.
\<close>

definition check_event :: "(string \<Rightarrow> int option) \<Rightarrow> json_object \<Rightarrow> verdict" where
  "check_event fromisoformat data =
     (case missing_field data required of
        Some f \<Rightarrow> Missing f
      | None \<Rightarrow>
          (case parse_timestamp fromisoformat data of
             None \<Rightarrow> BadTimestamp
           | Some ts \<Rightarrow>
               (case (subscript data ''topic'', subscript data ''event_id'',
                      subscript data ''source'', subscript data ''payload'') of
                  (Inr t, Inr i, Inr src, Inr p) \<Rightarrow>
                    Valid \<lparr>topic = t, event_id = i, source = src, timestamp = ts, payload = p\<rparr>
                | _ \<Rightarrow> Raised KeyError)))"

text \<open>
  The answers: 202 with the event_id, 202 with a count, 400 with a message, 400 with
  the message of \<^verbatim>\<open>publish_batch\<close> that quotes a value of the request, and the
  framework's answer to an exception.
\<close>

datatype response =
    Accepted json
  | AcceptedCount nat
  | BadRequest string
  | BadRequestFor string json
  | ServerError exn

text \<open>
  After the checks: append under the lock, then \<^verbatim>\<open>increment_received()\<close>, then 202.
  An exception of \<^verbatim>\<open>increment_received\<close> is answered by the framework with a server
  error; the event is on the queue by then.
\<close>

definition enqueue_and_count :: "env \<Rightarrow> event \<Rightarrow> state \<Rightarrow> exn option \<times> state" where
  "enqueue_and_count e ev s =
     (let s1 = s\<lparr>queue := enqueue ev (queue s)\<rparr>
      in case increment_received e (store s1) of
           Inl x \<Rightarrow> (Some x, s1)
         | Inr d \<Rightarrow> (None, s1\<lparr>store := d\<rparr>))"

definition publish ::
  "(string \<Rightarrow> int option) \<Rightarrow> env \<Rightarrow> json_object \<Rightarrow> state \<Rightarrow> response \<times> state" where
  "publish fromisoformat e data s =
     (case check_event fromisoformat data of
        Missing f \<Rightarrow> (BadRequest (''Missing field: '' @ f), s)
      | BadTimestamp \<Rightarrow> (BadRequest ''Invalid timestamp format'', s)
      | Raised x \<Rightarrow> (ServerError x, s)
      | Valid ev \<Rightarrow>
          (case enqueue_and_count e ev s of
             (Some x, s') \<Rightarrow> (ServerError x, s')
           | (None, s') \<Rightarrow> (Accepted (event_id ev), s')))"

text \<open>
  The loop of \<^verbatim>\<open>publish_batch\<close>: the same checks per event, each ending the whole
  request with its 400; \<open>cnt\<close> (the source's count) is the number of events accepted
  so far, and the environment of the store may differ from one event to the next.
\<close>

fun publish_batch_loop ::
  "(string \<Rightarrow> int option) \<Rightarrow> (nat \<Rightarrow> env) \<Rightarrow> json_object list \<Rightarrow> nat \<Rightarrow> state \<Rightarrow> response \<times> state" where
  "publish_batch_loop fromisoformat envs [] cnt s = (AcceptedCount cnt, s)"
| "publish_batch_loop fromisoformat envs (data # rest) cnt s =
     (case check_event fromisoformat data of
        Missing f \<Rightarrow> (BadRequest (''Missing field: '' @ f), s)
      | BadTimestamp \<Rightarrow>
          (case subscript data ''event_id'' of
             Inl x \<Rightarrow> (ServerError x, s)
           | Inr i \<Rightarrow> (BadRequestFor ''Invalid timestamp for event '' i, s))
      | Raised x \<Rightarrow> (ServerError x, s)
      | Valid ev \<Rightarrow>
          (case enqueue_and_count (envs cnt) ev s of
             (Some x, s') \<Rightarrow> (ServerError x, s')
           | (None, s') \<Rightarrow> publish_batch_loop fromisoformat envs rest (cnt + 1) s'))"

definition publish_batch ::
  "(string \<Rightarrow> int option) \<Rightarrow> (nat \<Rightarrow> env) \<Rightarrow> json_object list option \<Rightarrow> state \<Rightarrow> response \<times> state" where
  "publish_batch fromisoformat envs events s =
     (case events of
        None \<Rightarrow> (BadRequest ''Missing events field'', s)
      | Some evs \<Rightarrow> publish_batch_loop fromisoformat envs evs 0 s)"

text \<open>
  What the specification says of a batch: repeated submit calls, each event on its own.
  \<open>submit_each\<close> follows these words; \<open>submit_until_refused\<close> makes the same calls
  and stops after the first one that is not answered with 202.
\<close>

fun submit_each ::
  "(string \<Rightarrow> int option) \<Rightarrow> (nat \<Rightarrow> env) \<Rightarrow> json_object list \<Rightarrow> nat \<Rightarrow> state \<Rightarrow> state" where
  "submit_each fromisoformat envs [] k s = s"
| "submit_each fromisoformat envs (data # rest) k s =
     submit_each fromisoformat envs rest (k + 1) (snd (publish fromisoformat (envs k) data s))"

fun submit_until_refused ::
  "(string \<Rightarrow> int option) \<Rightarrow> (nat \<Rightarrow> env) \<Rightarrow> json_object list \<Rightarrow> nat \<Rightarrow> state \<Rightarrow> state" where
  "submit_until_refused fromisoformat envs [] k s = s"
| "submit_until_refused fromisoformat envs (data # rest) k s =
     (case publish fromisoformat (envs k) data s of
        (Accepted i, s') \<Rightarrow> submit_until_refused fromisoformat envs rest (k + 1) s'
      | (r, s') \<Rightarrow> s')"

section \<open>The process\<close>

text \<open>
  \<^verbatim>\<open>__main__\<close> runs \<^verbatim>\<open>init_database\<close>, then starts the workers and the server, with
  the module's empty \<^verbatim>\<open>event_queue\<close>.
\<close>

definition main :: "env \<Rightarrow> db option \<Rightarrow> exn + state" where
  "main e existing =
     (case init_database e existing of
        Inl x \<Rightarrow> Inl x
      | Inr d \<Rightarrow> Inr \<lparr>queue = [], store = d\<rparr>)"

text \<open>
  After that the threads of the process take steps in some order. A request handler
  holds \<^verbatim>\<open>queue_lock\<close> for the append only and calls \<^verbatim>\<open>increment_received()\<close>
  after it has released the lock, so a request to /publish is two steps, and a worker
  can take the event between them: \<open>Arrive\<close> is the request up to the end of
  \<^verbatim>\<open>with queue_lock:\<close> (the checks and the append), \<open>Count\<close> is
  \<^verbatim>\<open>increment_received()\<close> and the answer. A request to /publish/batch is the same
  two steps for each of its events in turn, up to the first that is refused. \<open>Work\<close>
  is one pass of a worker's loop. Each step that calls the store brings the store's
  environment for its calls.
\<close>

datatype step =
    Arrive json_object
  | Count env
  | Work env

datatype observation =
    Answered response
  | Queued event
  | Counted
  | Printed "log_line option"
  | Died exn

definition arrive :: "(string \<Rightarrow> int option) \<Rightarrow> json_object \<Rightarrow> state \<Rightarrow> observation \<times> state" where
  "arrive fromisoformat data s =
     (case check_event fromisoformat data of
        Missing f \<Rightarrow> (Answered (BadRequest (''Missing field: '' @ f)), s)
      | BadTimestamp \<Rightarrow> (Answered (BadRequest ''Invalid timestamp format''), s)
      | Raised x \<Rightarrow> (Answered (ServerError x), s)
      | Valid ev \<Rightarrow> (Queued ev, s\<lparr>queue := enqueue ev (queue s)\<rparr>))"

definition count_received :: "env \<Rightarrow> state \<Rightarrow> observation \<times> state" where
  "count_received e s =
     (case increment_received e (store s) of
        Inl x \<Rightarrow> (Answered (ServerError x), s)
      | Inr d \<Rightarrow> (Counted, s\<lparr>store := d\<rparr>))"

fun do_step :: "(string \<Rightarrow> int option) \<Rightarrow> step \<Rightarrow> state \<Rightarrow> observation \<times> state" where
  "do_step fromisoformat (Arrive data) s = arrive fromisoformat data s"
| "do_step fromisoformat (Count e) s = count_received e s"
| "do_step fromisoformat (Work e) s =
     (case worker_iteration e s of
        (Inl x, s') \<Rightarrow> (Died x, s')
      | (Inr line, s') \<Rightarrow> (Printed line, s'))"

fun final :: "(string \<Rightarrow> int option) \<Rightarrow> step list \<Rightarrow> state \<Rightarrow> state" where
  "final fromisoformat [] s = s"
| "final fromisoformat (a # as) s = final fromisoformat as (snd (do_step fromisoformat a s))"

fun trace :: "(string \<Rightarrow> int option) \<Rightarrow> step list \<Rightarrow> state \<Rightarrow> observation list" where
  "trace fromisoformat [] s = []"
| "trace fromisoformat (a # as) s =
     fst (do_step fromisoformat a s) # trace fromisoformat as (snd (do_step fromisoformat a s))"

subsection \<open>Conditions of the store\<close>



definition calm :: env where
  "calm = \<lparr>connect = (\<lambda>attempt. Connects), fault_at = (\<lambda>site. None),
           adapt = (\<lambda>text. Inr text), now = 0\<rparr>"

text \<open>The store calm during every event of a batch.\<close>

definition always_calm :: "nat \<Rightarrow> env" where
  "always_calm k = calm"

text \<open>The store unreachable: every connection attempt raises OperationalError.\<close>

definition unreachable :: env where
  "unreachable = \<lparr>connect = (\<lambda>attempt. RaisesOperational), fault_at = (\<lambda>site. None),
                  adapt = (\<lambda>text. Inr text), now = 0\<rparr>"

subsection \<open>Sample data\<close>

text \<open>Scenario A of the specification, and a parser that knows its timestamp.\<close>

definition iso_sample :: "string \<Rightarrow> int option" where
  "iso_sample s = (if s = ''2025-01-01T00:00:00+00:00'' then Some 1735689600 else None)"

definition scenario_a :: json_object where
  "scenario_a = [''topic'' \<mapsto> JString ''t'', ''event_id'' \<mapsto> JString ''e1'',
                 ''source'' \<mapsto> JString ''s'',
                 ''timestamp'' \<mapsto> JString ''2025-01-01T00:00:00Z'',
                 ''payload'' \<mapsto> JOther ''{}'']"

definition event_a :: event where
  "event_a = \<lparr>topic = JString ''t'', event_id = JString ''e1'', source = JString ''s'',
              timestamp = 1735689600, payload = JOther ''{}''\<rparr>"

definition booted :: state where
  "booted = \<lparr>queue = [], store = fresh_db\<rparr>"

definition event_b :: event where
  "event_b = \<lparr>topic = JString ''t'', event_id = JString ''e2'', source = JString ''s'',
              timestamp = 1735689600, payload = JOther ''{}''\<rparr>"

text \<open>The outcome a call returned, if it returned.\<close>

definition returned :: "exn + ((bool \<times> bool) \<times> db) \<Rightarrow> (bool \<times> bool) option" where
  "returned r = (case r of Inl x \<Rightarrow> None | Inr (outcome, d') \<Rightarrow> Some outcome)"

subsection \<open>Words of the specification\<close>

text \<open>
  A malformed event: a required field is missing, or the timestamp does not parse (a
  timestamp that is not a string does not).
\<close>

definition malformed :: "(string \<Rightarrow> int option) \<Rightarrow> json_object \<Rightarrow> bool" where
  "malformed fromisoformat data =
     (list_ex (\<lambda>f. data f = None) required \<or>
      (case data ''timestamp'' of
         None \<Rightarrow> False
       | Some (JString text) \<Rightarrow> fromisoformat (replace_Z text) = None
       | Some other \<Rightarrow> True))"

definition only_topic :: json_object where
  "only_topic = [''topic'' \<mapsto> JString ''test'']"







subsection \<open>One event among the others\<close>








definition ok_line :: "event \<Rightarrow> observation" where
  "ok_line ev = Printed (Some (OK (topic ev) (event_id ev)))"


fun is_dup :: "observation \<Rightarrow> bool" where
  "is_dup (Printed (Some (DUP t i))) = True"
| "is_dup ob = False"






definition event_null :: event where
  "event_null = \<lparr>topic = JNull, event_id = JString ''e9'', source = JString ''s'',
                 timestamp = 1735689600, payload = JOther ''{}''\<rparr>"

section \<open>Connections\<close>

lemma range_max_retries: "[0..<max_retries] = [0, 1, 2, 3, 4]"
  by (simp add: max_retries_def upt_rec)

lemma get_db_connection_cases:
  "get_db_connection c = Inr (Some Conn) \<or> get_db_connection c = Inl ConnectFailed \<or>
   get_db_connection c = Inl OtherError"
  unfolding get_db_connection_def range_max_retries
  by (simp add: max_retries_def split: attempt.splits)

lemma open_cursor_calm: "open_cursor calm = Inr Conn"
  unfolding open_cursor_def get_db_connection_def range_max_retries
  by (simp add: calm_def)

lemma open_cursor_unreachable: "open_cursor unreachable = Inl ConnectFailed"
  unfolding open_cursor_def get_db_connection_def range_max_retries
  by (simp add: unreachable_def max_retries_def)

lemma fault_at_calm: "fault_at calm site = None"
  by (simp add: calm_def)


text \<open>On an empty store the process starts in \<open>booted\<close>, or does not start.\<close>

lemma main_on_empty_store: "main e None = Inr s \<Longrightarrow> s = booted"
  by (auto simp: main_def init_database_def booted_def split: sum.splits option.splits)

lemma main_unreachable: "main unreachable existing = Inl ConnectFailed"
  by (simp add: main_def init_database_def open_cursor_unreachable)

section \<open>What one call of insert_event does\<close>

lemma try_insert_Inr:
  "try_insert e ev d = Inr d' \<Longrightarrow>
     d' = \<lparr>processed_events = processed_events d @ [new_row e ev],
           stats = (stats d)\<lparr>unique_processed := unique_processed (stats d) + 1\<rparr>\<rparr> \<and>
     refusal e ev = None \<and> row_event_id (new_row e ev) \<notin> set (stored_ids d) \<and>
     unique_processed (stats d) < pg_integer_max"
  by (auto simp: try_insert_def exec_insert_def exec_increment_def exec_commit_def
      split: sum.splits option.splits if_splits)

lemma on_integrity_error_Inr:
  "on_integrity_error e d = Inr (outcome, d') \<Longrightarrow>
     outcome = Duplicate \<and>
     d' = d\<lparr>stats := (stats d)\<lparr>duplicate_dropped := duplicate_dropped (stats d) + 1\<rparr>\<rparr>"
  by (auto simp: on_integrity_error_def exec_increment_def exec_commit_def
      split: sum.splits option.splits if_splits)

lemma on_exception_Inr:
  "on_exception e d = Inr (outcome, d') \<Longrightarrow> outcome = Failed \<and> d' = d"
  by (auto simp: on_exception_def split: option.splits)

text \<open>
  Whenever \<^verbatim>\<open>insert_event\<close> returns, it returns one of the three pairs, each from its
  own branch of the try statement.
\<close>

lemma insert_event_Inr:
  assumes "insert_event e ev d = Inr (outcome, d')"
  shows "(outcome = Created \<and> try_insert e ev d = Inr d') \<or>
         (outcome = Duplicate \<and> try_insert e ev d = Inl IntegrityError \<and>
            d' = d\<lparr>stats := (stats d)\<lparr>duplicate_dropped := duplicate_dropped (stats d) + 1\<rparr>\<rparr>) \<or>
         (outcome = Failed \<and> (\<exists>x. try_insert e ev d = Inl x \<and> x \<noteq> IntegrityError) \<and> d' = d)"
  using assms on_integrity_error_Inr[of e d outcome d'] on_exception_Inr[of e d outcome d']
  by (auto simp: insert_event_def split: sum.splits if_splits)

lemma refusal_event_a: "refusal e event_a = None"
  by (simp add: refusal_def bound_def column_def varchar_255_def event_a_def)


lemma insert_event_calm_fresh:
  "insert_event calm event_a fresh_db =
     Inr (Created, \<lparr>processed_events = [new_row calm event_a],
                    stats = \<lparr>received = 0, unique_processed = 1, duplicate_dropped = 0\<rparr>\<rparr>)"
  by (simp add: insert_event_def open_cursor_calm try_insert_def exec_insert_def
      exec_increment_def exec_commit_def stored_ids_def fresh_db_def pg_integer_max_def
      fault_at_calm refusal_event_a)

text \<open>
  C3. Every call of \<^verbatim>\<open>insert_event\<close> that returns Created has added one to
  unique_processed and left the other two counters as they were; every call that returns
  Duplicate has added one to duplicate_dropped and left the other two; every call that
  returns Failed has left the three counters as they were. Nothing else is returned.
\<close>

theorem insert_event_counts_once:
  "insert_event e ev d = Inr (outcome, d') \<Longrightarrow>
     (outcome = Created \<and>
        stats d' = (stats d)\<lparr>unique_processed := unique_processed (stats d) + 1\<rparr>) \<or>
     (outcome = Duplicate \<and>
        stats d' = (stats d)\<lparr>duplicate_dropped := duplicate_dropped (stats d) + 1\<rparr>) \<or>
     (outcome = Failed \<and> stats d' = stats d)"
proof -
  assume r: "insert_event e ev d = Inr (outcome, d')"
  from insert_event_Inr[OF r] show ?thesis
    by (auto dest: try_insert_Inr)
qed

theorem insert_event_counts_once_witness:
  "insert_event calm event_a fresh_db =
     Inr (Created, \<lparr>processed_events = [new_row calm event_a],
                    stats = \<lparr>received = 0, unique_processed = 1, duplicate_dropped = 0\<rparr>\<rparr>) \<and>
   \<lparr>received = 0, unique_processed = 1, duplicate_dropped = 0\<rparr> =
     (stats fresh_db)\<lparr>unique_processed := unique_processed (stats fresh_db) + 1\<rparr>"
  using insert_event_counts_once [OF insert_event_calm_fresh] insert_event_calm_fresh
  by simp

text \<open>
  C10. The row and its count are committed together: after any call of
  \<^verbatim>\<open>insert_event\<close>, whatever the store did during it, either the call returned Created
  and the durable state has the new row and unique_processed one higher, or it did not
  (it returned another outcome or raised) and the durable state has the rows it had and
  the same unique_processed. There is no state with the row and without its count.
\<close>

theorem created_is_atomic:
  "(if returned (insert_event e ev d) = Some Created
    then processed_events (db_after (insert_event e ev d) d) = processed_events d @ [new_row e ev] \<and>
         unique_processed (stats (db_after (insert_event e ev d) d)) = unique_processed (stats d) + 1
    else processed_events (db_after (insert_event e ev d) d) = processed_events d \<and>
         unique_processed (stats (db_after (insert_event e ev d) d)) = unique_processed (stats d))"
proof (cases "insert_event e ev d")
  case (Inl x)
  then show ?thesis by (simp add: returned_def db_after_def)
next
  case (Inr p)
  obtain outcome d' where p: "p = (outcome, d')" by (cases p)
  from insert_event_Inr[of e ev d outcome d'] Inr p show ?thesis
    by (auto simp: returned_def db_after_def dest: try_insert_Inr)
qed

theorem created_is_atomic_witness:
  "returned (insert_event calm event_a fresh_db) = Some Created \<and>
   processed_events (db_after (insert_event calm event_a fresh_db) fresh_db) = [new_row calm event_a] \<and>
   unique_processed (stats (db_after (insert_event calm event_a fresh_db) fresh_db)) = 1"
  using created_is_atomic [of calm event_a fresh_db]
  by (simp add: insert_event_calm_fresh returned_def db_after_def)

section \<open>When the store cannot be reached\<close>

lemma insert_event_unreachable: "insert_event unreachable ev d = Inl ConnectFailed"
  by (simp add: insert_event_def open_cursor_unreachable)

text \<open>
  C2. \<^verbatim>\<open>insert_event\<close> is claimed to end in one of three outcomes, Failed on any failure
  other than a collision of event_id. When it returns it does return one of the three
  (\<open>insert_event_Inr\<close>). But \<^verbatim>\<open>get_db_connection()\<close> is called before the try block:
  with the store unreachable at each of the five attempts, the call raises and returns
  no outcome at all.
\<close>

theorem insert_event_raises_when_store_unreachable:
  "insert_event unreachable event_a fresh_db = Inl ConnectFailed \<and>
   returned (insert_event unreachable event_a fresh_db) \<noteq> Some Failed"
  by (simp add: insert_event_def open_cursor_unreachable returned_def)

text \<open>
  C4. A store failure is claimed never to end the worker. With two events queued and
  the store unreachable during the first pass, the exception of \<^verbatim>\<open>insert_event\<close> leaves
  the worker's loop: the thread ends, it has printed neither [OK] nor [DUP], the first event has left
  the queue without being stored, and the second event stays queued although the store
  is back for the pass that would have taken it.
\<close>

theorem worker_dies_when_store_unreachable:
  "worker [unreachable, calm] \<lparr>queue = [event_a, event_b], store = fresh_db\<rparr> =
     (Some ConnectFailed, [], \<lparr>queue = [event_b], store = fresh_db\<rparr>)"
  by (simp add: worker_iteration_def dequeue_def insert_event_unreachable)

section \<open>The hand-off from producers to workers\<close>

lemma queue_run_keeps_order:
  "map snd (snd (queue_run ops (q, claimed))) @ fst (queue_run ops (q, claimed)) =
     map snd claimed @ q @ appended ops"
proof (induction ops arbitrary: q claimed)
  case Nil
  show ?case by simp
next
  case (Cons a ops)
  show ?case
  proof (cases a)
    case (Append ev)
    then show ?thesis using Cons.IH[of "enqueue ev q" claimed]
      by (simp add: enqueue_def)
  next
    case (Pop w)
    show ?thesis
    proof (cases q)
      case Nil
      then show ?thesis using Pop Cons.IH[of q claimed] by (simp add: dequeue_def)
    next
      case (Cons x rest)
      then show ?thesis using Pop Cons.IH[of rest "claimed @ [(w, x)]"]
        by (simp add: dequeue_def)
    qed
  qed
qed

text \<open>
  C8. The queue is first in, first out, and hands each event to one worker: after any
  sequence of appends by producers and locked sections of workers (in any order, by any
  workers), the events received by workers, in the order they were received, followed
  by the events still queued, are exactly the events appended, in the order they were
  appended. So an event is received before every event appended after it, none is
  received twice and none is missing.
\<close>

theorem queue_is_fifo:
  "map snd (snd (queue_run ops ([], []))) @ fst (queue_run ops ([], [])) = appended ops"
  using queue_run_keeps_order[of ops "[]" "[]"] by simp

theorem queue_is_fifo_witness:
  "queue_run [Append event_a, Append event_b, Pop 2, Append event_a, Pop 0] ([], []) =
     ([event_a], [(2, event_a), (0, event_b)]) \<and>
   appended [Append event_a, Append event_b, Pop 2, Append event_a, Pop 0] =
     [event_a, event_b, event_a]"
  using queue_is_fifo [of "[Append event_a, Append event_b, Pop 2, Append event_a, Pop 0]"]
  by (simp add: enqueue_def dequeue_def)

section \<open>Validation at the gateway\<close>

lemma missing_field_None:
  "missing_field data names = None \<longleftrightarrow> \<not> list_ex (\<lambda>f. data f = None) names"
  by (auto simp: missing_field_def find_None_iff list_ex_iff)

lemma check_event_malformed:
  "malformed fromisoformat data \<Longrightarrow>
     (\<exists>f. check_event fromisoformat data = Missing f) \<or> check_event fromisoformat data = BadTimestamp"
  by (cases "missing_field data required")
     (auto simp: malformed_def check_event_def parse_timestamp_def subscript_def
       missing_field_None split: option.splits json.splits)

lemma check_only_topic: "check_event iso_sample only_topic = Missing ''event_id''"
  by (simp add: check_event_def missing_field_def required_def only_topic_def)

text \<open>
  C6. A malformed event (a required field missing, or a timestamp that does not parse)
  is answered by \<^verbatim>\<open>publish\<close> with a 400 and changes nothing: the queue and the store,
  with its three counters, are as before, whatever the state of the store.
\<close>

theorem publish_rejects_malformed:
  "malformed fromisoformat data \<Longrightarrow>
     \<exists>msg. publish fromisoformat e data s = (BadRequest msg, s)"
  using check_event_malformed[of fromisoformat data]
  by (auto simp: publish_def)

theorem publish_rejects_malformed_witness:
  "malformed iso_sample only_topic \<and>
   publish iso_sample unreachable only_topic booted = (BadRequest ''Missing field: event_id'', booted)"
proof -
  have m: "malformed iso_sample only_topic"
    by (simp add: malformed_def required_def only_topic_def)
  from publish_rejects_malformed [OF m, of unreachable booted] m show ?thesis
    by (simp add: publish_def check_only_topic)
qed

section \<open>The listing\<close>





lemma get_events_defaults: "get_events e d tp None None = get_events_from_db e d tp 100 0"
  by (simp add: get_events_def)





section \<open>Batches\<close>

lemma check_scenario_a: "check_event iso_sample scenario_a = Valid event_a"
  by (simp add: check_event_def missing_field_def required_def scenario_a_def subscript_def
      parse_timestamp_def replace_Z_def iso_sample_def event_a_def)

lemma increment_received_calm:
  "received (stats d) < pg_integer_max \<Longrightarrow>
     increment_received calm d = Inr (d\<lparr>stats := (stats d)\<lparr>received := received (stats d) + 1\<rparr>\<rparr>)"
  by (simp add: increment_received_def open_cursor_calm exec_increment_def exec_commit_def
      fault_at_calm)

lemma publish_scenario_a_booted:
  "publish iso_sample calm scenario_a booted =
     (Accepted (JString ''e1''),
      \<lparr>queue = [event_a],
       store = \<lparr>processed_events = [],
                stats = \<lparr>received = 1, unique_processed = 0, duplicate_dropped = 0\<rparr>\<rparr>\<rparr>)"
  by (simp add: publish_def check_scenario_a enqueue_and_count_def enqueue_def booted_def
      increment_received_calm fresh_db_def pg_integer_max_def)
     (simp add: event_a_def)

lemma publish_only_topic: "publish f e only_topic s = (BadRequest ''Missing field: event_id'', s)"
  by (simp add: publish_def check_event_def missing_field_def required_def only_topic_def)

lemma publish_batch_loop_refines:
  "snd (publish_batch_loop f envs evs k s) = submit_until_refused f envs evs k s"
proof (induction evs arbitrary: k s)
  case Nil
  show ?case by simp
next
  case (Cons data rest)
  show ?case
  proof (cases "check_event f data")
    case (Valid ev)
    obtain x s' where r: "enqueue_and_count (envs k) ev s = (x, s')"
      by (cases "enqueue_and_count (envs k) ev s")
    show ?thesis
      using Valid r Cons.IH[of "k + 1" s']
      by (cases x) (simp_all add: publish_def)
  qed (simp_all add: publish_def split: sum.splits)
qed

lemma publish_batch_loop_accepted:
  "fst (publish_batch_loop f envs evs k s) = AcceptedCount n \<Longrightarrow>
     n = k + length evs \<and> submit_until_refused f envs evs k s = submit_each f envs evs k s"
proof (induction evs arbitrary: k s)
  case Nil
  then show ?case by simp
next
  case (Cons data rest)
  show ?case
  proof (cases "check_event f data")
    case (Valid ev)
    obtain x s' where r: "enqueue_and_count (envs k) ev s = (x, s')"
      by (cases "enqueue_and_count (envs k) ev s")
    show ?thesis
    proof (cases x)
      case None
      with Valid r Cons.prems Cons.IH[of "k + 1" s'] show ?thesis
        by (simp add: publish_def)
    next
      case (Some y)
      with Valid r Cons.prems show ?thesis by simp
    qed
  next
    case (Missing g)
    with Cons.prems show ?thesis by simp
  next
    case BadTimestamp
    with Cons.prems show ?thesis by (simp split: sum.splits)
  next
    case (Raised y)
    with Cons.prems show ?thesis by simp
  qed
qed

text \<open>
  C5, as the code has it. \<^verbatim>\<open>publish_batch\<close> leaves the queue and the store as the
  individual submit calls would, made in the order of the batch and stopped after the
  first call that is not answered with 202: the events before it are queued and counted
  in received, the events after it are not looked at. A batch answered with 202 and a
  count has had every one of its events queued and counted, and the count is their
  number.
\<close>

theorem batch_stops_at_first_refusal:
  "snd (publish_batch f envs (Some evs) s) = submit_until_refused f envs evs 0 s \<and>
   (\<forall>n. fst (publish_batch f envs (Some evs) s) = AcceptedCount n \<longrightarrow>
        n = length evs \<and> snd (publish_batch f envs (Some evs) s) = submit_each f envs evs 0 s)"
  using publish_batch_loop_refines[of f envs evs 0 s] publish_batch_loop_accepted[of f envs evs 0 s]
  by (auto simp: publish_batch_def)

lemma batch_of_two_accepted:
  "publish_batch iso_sample always_calm (Some [scenario_a, scenario_a]) booted =
     (AcceptedCount 2,
      \<lparr>queue = [event_a, event_a],
       store = \<lparr>processed_events = [],
                stats = \<lparr>received = 2, unique_processed = 0, duplicate_dropped = 0\<rparr>\<rparr>\<rparr>)"
  by (simp add: publish_batch_def check_scenario_a enqueue_and_count_def always_calm_def
      enqueue_def booted_def increment_received_calm fresh_db_def pg_integer_max_def)

theorem batch_stops_at_first_refusal_witness:
  "fst (publish_batch iso_sample always_calm (Some [scenario_a, scenario_a]) booted) = AcceptedCount 2 \<and>
   submit_each iso_sample always_calm [scenario_a, scenario_a] 0 booted =
     \<lparr>queue = [event_a, event_a],
      store = \<lparr>processed_events = [],
               stats = \<lparr>received = 2, unique_processed = 0, duplicate_dropped = 0\<rparr>\<rparr>\<rparr>"
proof -
  let ?r = "publish_batch iso_sample always_calm (Some [scenario_a, scenario_a]) booted"
  have a: "fst ?r = AcceptedCount 2"
    by (simp only: batch_of_two_accepted fst_conv)
  from batch_stops_at_first_refusal [of iso_sample always_calm "[scenario_a, scenario_a]" booted] a
  have "snd ?r = submit_each iso_sample always_calm [scenario_a, scenario_a] 0 booted"
    by blast
  then have "submit_each iso_sample always_calm [scenario_a, scenario_a] 0 booted = snd ?r"
    by (rule sym)
  also have "snd ?r =
     \<lparr>queue = [event_a, event_a],
      store = \<lparr>processed_events = [],
               stats = \<lparr>received = 2, unique_processed = 0, duplicate_dropped = 0\<rparr>\<rparr>\<rparr>"
    by (simp only: batch_of_two_accepted snd_conv)
  finally show ?thesis using a by simp
qed

text \<open>
  C5, as the claim has it, would make the batch equal to the individual submits of all
  its events. A batch of an event without event_id followed by the event of scenario A
  is answered with 400 at the first event and queues nothing; the two submits queue the
  second event.
\<close>

theorem batch_drops_events_after_invalid:
  "snd (publish_batch iso_sample always_calm (Some [only_topic, scenario_a]) booted) \<noteq>
     submit_each iso_sample always_calm [only_topic, scenario_a] 0 booted"
proof -
  have "queue (snd (publish_batch iso_sample always_calm (Some [only_topic, scenario_a]) booted)) = []"
    by (simp add: publish_batch_def check_only_topic booted_def)
  moreover have "queue (submit_each iso_sample always_calm [only_topic, scenario_a] 0 booted) = [event_a]"
    by (simp add: publish_only_topic publish_scenario_a_booted always_calm_def)
  ultimately show ?thesis by auto
qed

section \<open>The steps of the process\<close>



















lemma exec_rollback_calm: "exec_rollback calm = None"
  by (simp add: exec_rollback_def fault_at_calm)

lemma insert_event_calm:
  "insert_event calm ev d =
     (case refusal calm ev of
        Some x \<Rightarrow> if x = IntegrityError then on_integrity_error calm d else Inr (Failed, d)
      | None \<Rightarrow>
          if row_event_id (new_row calm ev) \<in> set (stored_ids d) then on_integrity_error calm d
          else if unique_processed (stats d) < pg_integer_max
            then Inr (Created, d\<lparr>processed_events := processed_events d @ [new_row calm ev],
                                  stats := (stats d)\<lparr>unique_processed := unique_processed (stats d) + 1\<rparr>\<rparr>)
            else Inr (Failed, d))"
  by (simp add: insert_event_def open_cursor_calm try_insert_def exec_insert_def fault_at_calm
      exec_increment_def exec_commit_def on_exception_def exec_rollback_calm
      split: option.splits)

lemma on_integrity_error_calm:
  "duplicate_dropped (stats d) < pg_integer_max \<Longrightarrow>
     on_integrity_error calm d =
       Inr (Duplicate, d\<lparr>stats := (stats d)\<lparr>duplicate_dropped := duplicate_dropped (stats d) + 1\<rparr>\<rparr>)"
  by (simp add: on_integrity_error_def exec_rollback_calm exec_increment_def exec_commit_def
      fault_at_calm)

text \<open>
  \<^verbatim>\<open>publish\<close> is its two steps with nothing between them.
\<close>

lemma publish_in_two_steps:
  "snd (publish f e data s) =
     (case arrive f data s of
        (Queued ev, s1) \<Rightarrow> snd (count_received e s1)
      | (ob, s1) \<Rightarrow> s1)"
  by (cases "check_event f data")
     (auto simp: publish_def arrive_def count_received_def enqueue_and_count_def Let_def
       split: sum.splits)



section \<open>What the schema refuses\<close>

text \<open>A null topic: NOT NULL raises IntegrityError, which is counted as a duplicate.\<close>

lemma null_topic_counted_as_duplicate:
  "insert_event calm event_null fresh_db =
     Inr (Duplicate, \<lparr>processed_events = [],
                      stats = \<lparr>received = 0, unique_processed = 0, duplicate_dropped = 1\<rparr>\<rparr>)"
  by (simp add: insert_event_calm refusal_def bound_def column_def varchar_255_def
      event_null_def on_integrity_error_calm fresh_db_def pg_integer_max_def)

text \<open>Spaces beyond the 255th character are cut, and the rest is stored.\<close>

lemma trailing_spaces_cut: "varchar_255 (replicate 255 (CHR ''a'') @ ''  '') = Inr (replicate 255 (CHR ''a''))"
  by (simp add: varchar_255_def)




section \<open>The counters over a run of the process\<close>



text \<open>
  C7. In every drained state unique_processed + duplicate_dropped is claimed to be at
  most received. \<^verbatim>\<open>publish\<close> appends the event under the lock and calls
  \<^verbatim>\<open>increment_received()\<close> after it. In the first run the store is unreachable
  during that call: the request is answered with a server error, the event stays
  queued, a worker pass with the store back stores it, and the process is left with an
  empty queue, unique_processed 1 and received 0 for good. In the second run a worker
  pass comes between the append and the call: the queue is empty, no persist is under
  way, no request has been answered with an error, and again unique_processed is 1 and
  received 0.
\<close>

theorem received_misses_enqueued_event:
  "final iso_sample [Arrive scenario_a, Count unreachable, Work calm] booted =
     \<lparr>queue = [],
      store = \<lparr>processed_events = [new_row calm event_a],
               stats = \<lparr>received = 0, unique_processed = 1, duplicate_dropped = 0\<rparr>\<rparr>\<rparr> \<and>
   trace iso_sample [Arrive scenario_a, Count unreachable, Work calm] booted =
     [Queued event_a, Answered (ServerError ConnectFailed), ok_line event_a] \<and>
   final iso_sample [Arrive scenario_a, Work calm] booted =
     \<lparr>queue = [],
      store = \<lparr>processed_events = [new_row calm event_a],
               stats = \<lparr>received = 0, unique_processed = 1, duplicate_dropped = 0\<rparr>\<rparr>\<rparr> \<and>
   trace iso_sample [Arrive scenario_a, Work calm] booted = [Queued event_a, ok_line event_a]"
  by (simp add: arrive_def check_scenario_a count_received_def enqueue_def booted_def
      fresh_db_def increment_received_def open_cursor_unreachable worker_iteration_def
      dequeue_def insert_event_calm refusal_event_a stored_ids_def pg_integer_max_def
      ok_line_def)

section \<open>Idempotency\<close>










end
